theory Spec2Isabelle
  imports Complex_Main "HOL-Library.Word" "HOL-Library.Signed_Division"
begin

section \<open>The ONNX MNIST sample: data model\<close>

text \<open>
  The program of \<^verbatim>\<open>samples/sampleOnnxMNIST/sampleOnnxMNIST.cpp\<close> sequences calls into
  a closed inference runtime. The runtime, the file system, the C library and the helper
  headers of the samples are not part of the file: what they answer is a parameter of the
  model (the record \<open>world\<close> below), and every call the program makes is written to a
  trace of events, in program order. The trace also marks the entry into each method of
  the sample (\<open>Enter\<close>). Output on \<^verbatim>\<open>std::cout\<close> and \<^verbatim>\<open>std::cerr\<close> and the information
  log are left out of the trace.
\<close>

type_synonym byte = "8 word"

text \<open>\<^verbatim>\<open>nvinfer1::Dims\<close>: the number of dimensions and the extents.\<close>

record dims =
  nbDims :: int
  d :: "int list"

text \<open>What the parser leaves in the \<^verbatim>\<open>INetworkDefinition\<close>: its inputs and outputs.\<close>

record network =
  net_inputs :: "dims list"
  net_outputs :: "dims list"

text \<open>An \<^verbatim>\<open>ICudaEngine\<close>, as far as the sample looks at it: the names of its I/O tensors.\<close>

record engine =
  ioTensorNames :: "string list"

datatype builder_flag = kFP16 | kBF16 | kINT8

text \<open>\<^verbatim>\<open>samplesCommon::Args\<close>, the result of the argument parser.\<close>

record args =
  arg_help :: bool
  arg_dataDirs :: "string list"
  useDLACore :: int
  runInInt8 :: bool
  runInFp16 :: bool
  runInBf16 :: bool
  arg_timingCacheFile :: string
  arg_saveEngine :: string
  arg_loadEngine :: string

text \<open>\<^verbatim>\<open>sampleOnnxMNISTParams\<close>, with the fields it inherits from \<^verbatim>\<open>OnnxSampleParams\<close>.\<close>

record params =
  dataDirs :: "string list"
  onnxFileName :: string
  inputTensorNames :: "string list"
  outputTensorNames :: "string list"
  dlaCore :: int
  int8 :: bool
  fp16 :: bool
  bf16 :: bool
  timingCacheFile :: string
  saveEngine :: string
  loadEngine :: string

text \<open>The members of the class \<^verbatim>\<open>SampleOnnxMNIST\<close>; a null pointer is \<open>None\<close>.\<close>

record sample =
  mParams :: params
  mInputDims :: dims
  mOutputDims :: dims
  mNumber :: int
  mRuntime :: "unit option"
  mEngine :: "engine option"

subsection \<open>Floats\<close>

text \<open>
  A value of the type \<^verbatim>\<open>float\<close> (binary32): a finite number, the negative zero, an infinity
  or NaN. \<open>Finite 0\<close> is the positive zero. How floats compare is fixed by IEEE 754 and
  written out here: NaN compares false with everything, the two zeros are equal, and the
  infinities lie outside the finite numbers. What the arithmetic returns (rounding, overflow,
  the value of \<^verbatim>\<open>exp\<close>) belongs to the platform and is a parameter of the model, below.
\<close>

datatype f32 = Finite real | NegZero | PInf | NInf | NaN

fun cls :: "f32 \<Rightarrow> int" where
  "cls NInf = - 1"
| "cls PInf = 1"
| "cls _ = 0"

fun fval :: "f32 \<Rightarrow> real" where
  "fval (Finite r) = r"
| "fval _ = 0"

text \<open>The operators \<^verbatim>\<open><\<close> and \<^verbatim>\<open>==\<close> on floats.\<close>

definition f_lt :: "f32 \<Rightarrow> f32 \<Rightarrow> bool" where
  "f_lt a b \<longleftrightarrow> a \<noteq> NaN \<and> b \<noteq> NaN \<and> (cls a < cls b \<or> (cls a = cls b \<and> fval a < fval b))"

definition f_eq :: "f32 \<Rightarrow> f32 \<Rightarrow> bool" where
  "f_eq a b \<longleftrightarrow> a \<noteq> NaN \<and> b \<noteq> NaN \<and> cls a = cls b \<and> fval a = fval b"

text \<open>\<^verbatim>\<open>std::max(a, b)\<close> is \<^verbatim>\<open>(a < b) ? b : a\<close>: it keeps \<open>a\<close> when \<open>b\<close> is NaN.\<close>

definition f_max :: "f32 \<Rightarrow> f32 \<Rightarrow> f32" where
  "f_max a b = (if f_lt a b then b else a)"

text \<open>\<^verbatim>\<open>std::floor\<close> on a float, which is exact.\<close>

fun f_floor :: "f32 \<Rightarrow> f32" where
  "f_floor (Finite r) = Finite (of_int \<lfloor>r\<rfloor>)"
| "f_floor x = x"

text \<open>
  The conversion of a float to \<^verbatim>\<open>int\<close> (32 bits) truncates; it is undefined behaviour, here
  \<open>None\<close>, when the truncated value is not an \<^verbatim>\<open>int\<close>, as for NaN and the infinities.
\<close>

fun to_int :: "f32 \<Rightarrow> int option" where
  "to_int (Finite r) =
     (let t = (if 0 \<le> r then \<lfloor>r\<rfloor> else \<lceil>r\<rceil>)
      in if - 2147483648 \<le> t \<and> t \<le> 2147483647 then Some t else None)"
| "to_int NegZero = Some 0"
| "to_int _ = None"

text \<open>The constant \<^verbatim>\<open>0.9F\<close>: the binary32 number nearest to \<open>0.9\<close>, which is \<open>15099494 / 2^24\<close>.\<close>

definition c_0_9F :: f32 where
  "c_0_9F = Finite (15099494 / 16777216)"

text \<open>
  The host buffers of the \<^verbatim>\<open>BufferManager\<close>, by tensor name. A name the manager does not
  know has the null pointer as its buffer.
\<close>

type_synonym buffers = "string \<rightharpoonup> f32 list"

text \<open>
  The objects \<^verbatim>\<open>build\<close> hands to \<^verbatim>\<open>constructNetwork\<close> by reference: the network the parser
  fills, the flags and the DLA core set on the configuration, and whether the timing cache
  is a non-null pointer.
\<close>

record builder_objects =
  bo_network :: network
  bo_flags :: "builder_flag list"
  bo_dla :: "int option"
  bo_timingCache :: bool

text \<open>A file on disk: its bytes, and whether reading it fails.\<close>

record disk_file =
  content :: "byte list"
  read_error :: bool

text \<open>
  The entry into a method of the sample, and every call that leaves the program, in the
  order the program makes them.
\<close>

datatype event =
    Enter string
  | LogError string
  | PrintHelpInfo
  | ReportTestStart
  | ReportPass
  | ReportFail
  | CreateInferBuilder
  | CreateNetworkV2
  | CreateBuilderConfig
  | CreateParser
  | ParseFromFile string
  | SetFlag builder_flag
  | SetAllDynamicRanges
  | BuildTimingCacheFromFile string
  | EnableDLA int
  | MakeCudaStream
  | SetProfileStream
  | BuildSerializedNetwork
  | UpdateTimingCacheFile string
  | CreateInferRuntime
  | SetDLACore int
  | DeserializeCudaEngine "byte list" nat
  | SaveEngine string
  | OpenEngineFile string
  | ReadEngineFile nat
  | CreateBufferManager
  | CreateExecutionContext
  | SetTensorAddress string
  | ReadPGMFile string nat nat
  | CopyInputToDevice
  | ExecuteV2
  | CopyOutputToHost

text \<open>
  The answers of everything outside the file. A pointer result is a Boolean (null or not)
  where the program only tests it, and an option where the program uses the object.
  \<open>locateFile\<close> and \<open>readPGMFile\<close> are taken to return. \<open>rand\<close> is the value of the one call
  of \<^verbatim>\<open>rand()\<close>. The last five fields are the float arithmetic of the platform: \<open>f_exp\<close> is
  \<^verbatim>\<open>exp\<close> with its result stored in a float, \<open>f_add\<close>, \<open>f_mul\<close> and \<open>f_div\<close> are the float
  operators, and \<open>pixel_to_float\<close> is the value of \<^verbatim>\<open>1.0 - float(b / 255.0)\<close> stored in a float.
\<close>

record world =
  createInferBuilder :: bool
  createNetworkV2 :: bool
  createBuilderConfig :: bool
  createParser :: bool
  locateFile :: "string \<Rightarrow> string list \<Rightarrow> string"
  parseFromFile :: "string \<Rightarrow> network option"
  buildTimingCacheFromFile :: "string \<Rightarrow> bool"
  makeCudaStream :: bool
  buildSerializedNetwork :: "builder_objects \<Rightarrow> byte list option"
  createInferRuntime :: bool
  deserializeCudaEngine :: "byte list \<Rightarrow> nat \<Rightarrow> engine option"
  saveEngineFile :: "engine \<Rightarrow> string \<Rightarrow> bool"
  files :: "string \<rightharpoonup> disk_file"
  hostBuffers :: "engine \<Rightarrow> buffers"
  createExecutionContext :: "engine \<Rightarrow> bool"
  rand :: int
  readPGMFile :: "string \<Rightarrow> nat \<Rightarrow> nat \<Rightarrow> byte list"
  executeV2 :: "engine \<Rightarrow> buffers \<Rightarrow> buffers option"
  f_exp :: "f32 \<Rightarrow> f32"
  f_add :: "f32 \<Rightarrow> f32 \<Rightarrow> f32"
  f_mul :: "f32 \<Rightarrow> f32 \<Rightarrow> f32"
  f_div :: "f32 \<Rightarrow> f32 \<Rightarrow> f32"
  pixel_to_float :: "byte \<Rightarrow> f32"

text \<open>
  How a call ends: it returns, or the program dies in it. \<open>AssertionFailure\<close> is a failed
  \<^verbatim>\<open>ASSERT\<close>; \<open>NullDereference\<close>, \<open>BufferOverrun\<close> and \<open>FloatToIntOverflow\<close> are undefined
  behaviour of C++; \<open>LengthError\<close> is the exception \<^verbatim>\<open>std::length_error\<close>, which nothing in the
  program catches.
\<close>

datatype crash =
  AssertionFailure | NullDereference | BufferOverrun | FloatToIntOverflow | LengthError

datatype 'a outcome = Returned 'a | Crashed crash

type_synonym 'a run = "'a outcome \<times> sample \<times> event list"

definition emit :: "event list \<Rightarrow> 'a run \<Rightarrow> 'a run" where
  "emit es r = (case r of (res, s, tr) \<Rightarrow> (res, s, es @ tr))"

definition return :: "'a \<Rightarrow> sample \<Rightarrow> 'a run" where
  "return x s = (Returned x, s, [])"

text \<open>Sequencing: the rest of a function runs after a call that returned.\<close>

definition bind :: "'a run \<Rightarrow> ('a \<Rightarrow> sample \<Rightarrow> 'b run) \<Rightarrow> 'b run" where
  "bind r k =
     (case r of
        (Returned x, s, tr) \<Rightarrow> emit tr (k x s)
      | (Crashed c, s, tr) \<Rightarrow> (Crashed c, s, tr))"

definition die :: "crash \<Rightarrow> sample \<Rightarrow> 'a run" where
  "die c s = (Crashed c, s, [])"

text \<open>
  Modelled from the spec: the macro \<^verbatim>\<open>ASSERT\<close> comes from a header that is not in the
  repository's sources. A failed assertion ends the program on the spot; the function
  that asserts does not return.
\<close>

definition ASSERT :: "bool \<Rightarrow> sample \<Rightarrow> 'a run \<Rightarrow> 'a run" where
  "ASSERT c s k = (if c then k else die AssertionFailure s)"

section \<open>Verification of the output\<close>

text \<open>
  \<^verbatim>\<open>verifyOutput\<close> works in place on the first \<open>outputSize = 10\<close> entries of the output
  host buffer. The first loop exponentiates and sums. The second divides by the sum, keeps
  the running maximum \<open>val\<close> with its index \<open>idx\<close>, and writes a log line with a bar of
  \<^verbatim>\<open>int(std::floor(output[i] * 10 + 0.5F))\<close> stars: the conversion to \<^verbatim>\<open>int\<close> can be undefined,
  and a negative count makes the constructor of \<^verbatim>\<open>std::string\<close> throw.
\<close>

definition outputSize :: nat where
  "outputSize = 10"

definition exp_step :: "world \<Rightarrow> f32 list \<times> f32 \<Rightarrow> nat \<Rightarrow> f32 list \<times> f32" where
  "exp_step w st i =
     (case st of (output, sm) \<Rightarrow>
        let output' = output[i := f_exp w (output ! i)]
        in (output', f_add w sm (output' ! i)))"

definition star_count :: "world \<Rightarrow> f32 \<Rightarrow> crash + nat" where
  "star_count w x =
     (case to_int (f_floor (f_add w (f_mul w x (Finite 10)) (Finite (1 / 2)))) of
        None \<Rightarrow> Inl FloatToIntOverflow
      | Some n \<Rightarrow> if n < 0 then Inl LengthError else Inr (nat n))"

definition div_step ::
  "world \<Rightarrow> f32 \<Rightarrow> crash + f32 list \<times> f32 \<times> nat \<Rightarrow> nat \<Rightarrow> crash + f32 list \<times> f32 \<times> nat" where
  "div_step w sm st i =
     (case st of
        Inl c \<Rightarrow> Inl c
      | Inr (output, val, idx) \<Rightarrow>
         let output' = output[i := f_div w (output ! i) sm];
             val' = f_max val (output' ! i);
             idx' = (if f_eq val' (output' ! i) then i else idx)
         in (case star_count w (output' ! i) of
               Inl c \<Rightarrow> Inl c
             | Inr n \<Rightarrow> Inr (output', val', idx')))"

definition verifyOutput_loops :: "world \<Rightarrow> f32 list \<Rightarrow> crash + f32 list \<times> f32 \<times> nat" where
  "verifyOutput_loops w output =
     (case foldl (exp_step w) (output, Finite 0) [0..<outputSize] of (output1, sm) \<Rightarrow>
        foldl (div_step w sm) (Inr (output1, Finite 0, 0)) [0..<outputSize])"







section \<open>Reading the input\<close>

text \<open>\<^verbatim>\<open>std::to_string\<close> of an \<^verbatim>\<open>int\<close>: the decimal digits, with a sign when negative.\<close>

definition digit_char :: "nat \<Rightarrow> char" where
  "digit_char n = ''0123456789'' ! n"

fun to_string_nat :: "nat \<Rightarrow> string" where
  "to_string_nat n =
     (if n < 10 then [digit_char n] else to_string_nat (n div 10) @ [digit_char (n mod 10)])"

definition to_string :: "int \<Rightarrow> string" where
  "to_string i = (if i < 0 then CHR ''-'' # to_string_nat (nat (- i)) else to_string_nat (nat i))"

definition inputH :: nat where
  "inputH = 28"

definition inputW :: nat where
  "inputW = 28"

text \<open>
  \<^verbatim>\<open>processInput\<close>. The digit is \<^verbatim>\<open>rand() % 10\<close>, with the remainder of C++ (truncating).
  \<open>readPGMFile\<close> of the world is what the reader leaves in the \<open>inputH * inputW\<close> bytes of
  \<^verbatim>\<open>fileData\<close>, which start as zeros. The pixels are written to the host buffer of the first
  input tensor: a null buffer or one too short is undefined behaviour.
\<close>

definition pgm_name :: "int \<Rightarrow> string" where
  "pgm_name number = to_string number @ ''.pgm''"

definition fileData_of :: "world \<Rightarrow> string \<Rightarrow> byte list" where
  "fileData_of w path =
     take (inputH * inputW) (readPGMFile w path inputH inputW @ replicate (inputH * inputW) 0)"

definition processInput :: "world \<Rightarrow> buffers \<Rightarrow> sample \<Rightarrow> (bool \<times> buffers) run" where
  "processInput w bufs s =
     (let s1 = s\<lparr>mNumber := rand w smod 10\<rparr>;
          path = locateFile w (pgm_name (mNumber s1)) (dataDirs (mParams s1));
          fileData = fileData_of w path
      in emit [Enter ''processInput'', ReadPGMFile path inputH inputW]
        (case inputTensorNames (mParams s1) of
           [] \<Rightarrow> die BufferOverrun s1
         | name # _ \<Rightarrow>
            (case bufs name of
               None \<Rightarrow> die NullDereference s1
             | Some hostDataBuffer \<Rightarrow>
                if length hostDataBuffer < inputH * inputW then die BufferOverrun s1
                else return
                  (True, bufs(name \<mapsto> map (pixel_to_float w) fileData @ drop (inputH * inputW) hostDataBuffer))
                  s1)))"

text \<open>
  \<^verbatim>\<open>verifyOutput\<close> on the host buffer of the first output tensor: a null buffer or one
  shorter than \<open>outputSize\<close> is undefined behaviour. The result is
  \<^verbatim>\<open>idx == mNumber && val > 0.9F\<close>.
\<close>

definition verifyOutput :: "world \<Rightarrow> buffers \<Rightarrow> sample \<Rightarrow> bool run" where
  "verifyOutput w bufs s =
     emit [Enter ''verifyOutput'']
      (case outputTensorNames (mParams s) of
         [] \<Rightarrow> die BufferOverrun s
       | name # _ \<Rightarrow>
          (case bufs name of
             None \<Rightarrow> die NullDereference s
           | Some output \<Rightarrow>
              if length output < outputSize then die BufferOverrun s
              else (case verifyOutput_loops w output of
                      Inl c \<Rightarrow> die c s
                    | Inr (output', val, idx) \<Rightarrow>
                       return (int idx = mNumber s \<and> f_lt c_0_9F val) s)))"

section \<open>Inference\<close>

definition infer :: "world \<Rightarrow> sample \<Rightarrow> bool run" where
  "infer w s =
     emit [Enter ''infer'', CreateBufferManager]
      (case mEngine s of
         None \<Rightarrow> die NullDereference s
       | Some eng \<Rightarrow>
          emit [CreateExecutionContext]
           (if \<not> createExecutionContext w eng then return False s
            else emit (map SetTensorAddress (ioTensorNames eng))
              (ASSERT (length (inputTensorNames (mParams s)) = 1) s
                (bind (processInput w (hostBuffers w eng) s) (\<lambda>(ok, bufs1) s1.
                   if \<not> ok then return False s1
                   else emit [CopyInputToDevice, ExecuteV2]
                     (case executeV2 w eng bufs1 of
                        None \<Rightarrow> return False s1
                      | Some bufs2 \<Rightarrow>
                         emit [CopyOutputToHost]
                          (bind (verifyOutput w bufs2 s1) (\<lambda>verified s2.
                             if \<not> verified then return False s2 else return True s2))))))))"

section \<open>Building the engine\<close>

text \<open>The builder objects as \<^verbatim>\<open>build\<close> creates them, before the parser has run.\<close>

definition fresh_objects :: builder_objects where
  "fresh_objects =
     \<lparr>bo_network = \<lparr>net_inputs = [], net_outputs = []\<rparr>, bo_flags = [], bo_dla = None,
      bo_timingCache = False\<rparr>"

definition flag_events :: "params \<Rightarrow> event list" where
  "flag_events p =
     (if fp16 p then [SetFlag kFP16] else [])
     @ (if bf16 p then [SetFlag kBF16] else [])
     @ (if int8 p then [SetFlag kINT8, SetAllDynamicRanges] else [])
     @ (if length (timingCacheFile p) \<noteq> 0 then [BuildTimingCacheFromFile (timingCacheFile p)] else [])"

definition flags_set :: "params \<Rightarrow> builder_flag list" where
  "flags_set p =
     (if fp16 p then [kFP16] else []) @ (if bf16 p then [kBF16] else [])
     @ (if int8 p then [kINT8] else [])"

definition constructNetwork :: "world \<Rightarrow> builder_objects \<Rightarrow> sample \<Rightarrow> (bool \<times> builder_objects) run" where
  "constructNetwork w b s =
     (let p = mParams s; path = locateFile w (onnxFileName p) (dataDirs p)
      in emit [Enter ''constructNetwork'', ParseFromFile path]
        (case parseFromFile w path of
           None \<Rightarrow> return (False, b) s
         | Some net \<Rightarrow>
            emit (flag_events p @ [EnableDLA (dlaCore p)])
             (return
               (True,
                b\<lparr>bo_network := net,
                  bo_flags := bo_flags b @ flags_set p,
                  bo_timingCache :=
                    (if length (timingCacheFile p) \<noteq> 0
                     then buildTimingCacheFromFile w (timingCacheFile p) else bo_timingCache b),
                  bo_dla := Some (dlaCore p)\<rparr>)
               s)))"

text \<open>The four assertions and the two assignments at the end of \<^verbatim>\<open>build\<close>.\<close>

definition check_shape :: "network \<Rightarrow> sample \<Rightarrow> bool run" where
  "check_shape net s =
     ASSERT (length (net_inputs net) = 1) s
      (let s1 = s\<lparr>mInputDims := net_inputs net ! 0\<rparr>
       in ASSERT (nbDims (mInputDims s1) = 4) s1
        (ASSERT (length (net_outputs net) = 1) s1
          (let s2 = s1\<lparr>mOutputDims := net_outputs net ! 0\<rparr>
           in ASSERT (nbDims (mOutputDims s2) = 2) s2 (return True s2))))"

definition build :: "world \<Rightarrow> sample \<Rightarrow> bool run" where
  "build w s =
     emit [Enter ''build'', CreateInferBuilder]
      (if \<not> createInferBuilder w then return False s
       else emit [CreateNetworkV2]
        (if \<not> createNetworkV2 w then return False s
         else emit [CreateBuilderConfig]
          (if \<not> createBuilderConfig w then return False s
           else emit [CreateParser]
            (if \<not> createParser w then return False s
             else bind (constructNetwork w fresh_objects s) (\<lambda>(constructed, b) s.
               if \<not> constructed then return False s
               else emit [MakeCudaStream]
                (if \<not> makeCudaStream w then return False s
                 else emit [SetProfileStream, BuildSerializedNetwork]
                  (case buildSerializedNetwork w b of
                     None \<Rightarrow> return False s
                   | Some plan \<Rightarrow>
                      emit (if bo_timingCache b \<and> timingCacheFile (mParams s) \<noteq> []
                            then [UpdateTimingCacheFile (timingCacheFile (mParams s))] else [])
                       (emit [CreateInferRuntime]
                         (let s1 = s\<lparr>mRuntime := (if createInferRuntime w then Some () else None)\<rparr>
                          in if mRuntime s1 = None then return False s1
                          else emit [DeserializeCudaEngine plan (length plan)]
                           (let s2 = s1\<lparr>mEngine := deserializeCudaEngine w plan (length plan)\<rparr>
                            in case mEngine s2 of
                                 None \<Rightarrow> return False s2
                               | Some eng \<Rightarrow>
                                  emit [SaveEngine (saveEngine (mParams s2))]
                                   (if \<not> saveEngineFile w eng (saveEngine (mParams s2))
                                    then return False s2
                                    else check_shape (bo_network b) s2)))))))))))"

section \<open>Loading a saved engine\<close>

definition checkEngineLoad :: "sample \<Rightarrow> bool" where
  "checkEngineLoad s = (loadEngine (mParams s) \<noteq> [])"

text \<open>
  \<^verbatim>\<open>loadV3\<close>. The stream is sought to its end for the size and back to the beginning, the
  vector has that many bytes and the read fills it. The local \<^verbatim>\<open>DLACore\<close> is the constant
  \<open>-1\<close>. The runtime pointer is used without a test, and so is the result of the
  deserializer: the function returns true after it.
\<close>

definition loadV3 :: "world \<Rightarrow> sample \<Rightarrow> bool run" where
  "loadV3 w s =
     (let enginePath = loadEngine (mParams s)
      in emit [Enter ''loadV3'', OpenEngineFile enginePath]
        (case files w enginePath of
           None \<Rightarrow> return False s
         | Some engineFile \<Rightarrow>
            (let fsize = length (content engineFile);
                 engineData = take fsize (content engineFile)
             in emit [ReadEngineFile fsize]
               (if read_error engineFile then return False s
                else emit [CreateInferRuntime]
                 (let s1 = s\<lparr>mRuntime := (if createInferRuntime w then Some () else None)\<rparr>;
                      DLACore = (- 1 :: int)
                  in case mRuntime s1 of
                       None \<Rightarrow> die NullDereference s1
                     | Some _ \<Rightarrow>
                        emit ((if DLACore \<noteq> - 1 then [SetDLACore DLACore] else [])
                              @ [DeserializeCudaEngine engineData fsize])
                         (return True (s1\<lparr>mEngine := deserializeCudaEngine w engineData fsize\<rparr>)))))))"

section \<open>The parameters and the main program\<close>

definition initializeSampleParams :: "args \<Rightarrow> params" where
  "initializeSampleParams a =
     \<lparr>dataDirs = (if arg_dataDirs a = [] then [''data/mnist/'', ''data/samples/mnist/'']
                  else arg_dataDirs a),
      onnxFileName = ''mnist.onnx'',
      inputTensorNames = [''Input3''],
      outputTensorNames = [''Plus214_Output_0''],
      dlaCore = useDLACore a,
      int8 = runInInt8 a,
      fp16 = runInFp16 a,
      bf16 = runInBf16 a,
      timingCacheFile = arg_timingCacheFile a,
      saveEngine = arg_saveEngine a,
      loadEngine = arg_loadEngine a\<rparr>"

text \<open>
  The constructor. The two \<^verbatim>\<open>Dims\<close> members have no initialiser in the class; they are
  written before they are read, and start here as zero dimensions.
\<close>

definition SampleOnnxMNIST :: "params \<Rightarrow> sample" where
  "SampleOnnxMNIST p =
     \<lparr>mParams = p, mInputDims = \<lparr>nbDims = 0, d = []\<rparr>, mOutputDims = \<lparr>nbDims = 0, d = []\<rparr>,
      mNumber = 0, mRuntime = None, mEngine = None\<rparr>"

text \<open>
  How the process ends: with one of the two constants of \<^verbatim>\<open>main\<close>, with the value of the
  logger's pass or fail report, or by dying.
\<close>

datatype exit_status = EXIT_FAILURE | EXIT_SUCCESS | Pass_Report | Fail_Report | Died crash

text \<open>
  The engine is acquired by \<^verbatim>\<open>loadV3\<close> or by \<^verbatim>\<open>build\<close>; \<^verbatim>\<open>main\<close> treats the two results
  alike.
\<close>

definition acquire :: "world \<Rightarrow> sample \<Rightarrow> bool run" where
  "acquire w s = (if checkEngineLoad s then loadV3 w s else build w s)"

definition finish :: "bool run \<Rightarrow> exit_status \<times> event list" where
  "finish r =
     (case r of
        (Returned True, s, tr) \<Rightarrow> (Pass_Report, tr @ [ReportPass])
      | (Returned False, s, tr) \<Rightarrow> (Fail_Report, tr @ [ReportFail])
      | (Crashed c, s, tr) \<Rightarrow> (Died c, tr))"

text \<open>
  \<^verbatim>\<open>main\<close>, after the argument parser: \<open>argsOK\<close> and \<open>a\<close> are what \<^verbatim>\<open>parseArgs\<close> gave.
\<close>

definition main :: "world \<Rightarrow> bool \<Rightarrow> args \<Rightarrow> exit_status \<times> event list" where
  "main w argsOK a =
     (if \<not> argsOK then (EXIT_FAILURE, [LogError ''Invalid arguments'', PrintHelpInfo])
      else if arg_help a then (EXIT_SUCCESS, [PrintHelpInfo])
      else finish
        (emit [ReportTestStart]
          (bind (acquire w (SampleOnnxMNIST (initializeSampleParams a))) (\<lambda>acquired s.
             if \<not> acquired then return False s
             else bind (infer w s) (\<lambda>inferred s.
               if \<not> inferred then return False s else return True s)))))"

section \<open>The stages of the pipeline\<close>





text \<open>The shape of the MNIST model: one input of four dimensions, one output of two.\<close>

definition mnist_shape :: "network \<Rightarrow> bool" where
  "mnist_shape net \<longleftrightarrow>
     length (net_inputs net) = 1 \<and> nbDims (net_inputs net ! 0) = 4
     \<and> length (net_outputs net) = 1 \<and> nbDims (net_outputs net ! 0) = 2"

section \<open>What the two steps of the inference return\<close>

text \<open>
  The results of \<^verbatim>\<open>processInput\<close> and \<^verbatim>\<open>verifyOutput\<close>, apart from the state and the trace
  they leave.
\<close>

definition processed :: "world \<Rightarrow> buffers \<Rightarrow> sample \<Rightarrow> (bool \<times> buffers) outcome" where
  "processed w bufs s = fst (processInput w bufs s)"

definition verified :: "world \<Rightarrow> buffers \<Rightarrow> sample \<Rightarrow> bool outcome" where
  "verified w bufs s = fst (verifyOutput w bufs s)"

section \<open>Calls that carry a parameter of the sample\<close>

text \<open>
  The vendor calls that take the DLA core, a precision flag, the timing cache file or
  the name to save the engine under.
\<close>

fun is_config :: "event \<Rightarrow> bool" where
  "is_config (SetFlag f) = True"
| "is_config SetAllDynamicRanges = True"
| "is_config (BuildTimingCacheFromFile f) = True"
| "is_config (UpdateTimingCacheFile f) = True"
| "is_config (EnableDLA core) = True"
| "is_config (SetDLACore core) = True"
| "is_config (SaveEngine f) = True"
| "is_config _ = False"

section \<open>The build path up to the saved engine\<close>

text \<open>
  Names for what the properties of \<^verbatim>\<open>build\<close> speak about: the path of the ONNX file, the
  builder objects after \<^verbatim>\<open>constructNetwork\<close>, the condition that every step of \<^verbatim>\<open>build\<close> up
  to and including the deserialization of the plan succeeds, and the trace \<^verbatim>\<open>build\<close> has
  left when it has called \<^verbatim>\<open>saveEngine\<close>.
\<close>

definition onnx_path :: "world \<Rightarrow> params \<Rightarrow> string" where
  "onnx_path w p = locateFile w (onnxFileName p) (dataDirs p)"

definition configured_objects :: "world \<Rightarrow> params \<Rightarrow> network \<Rightarrow> builder_objects" where
  "configured_objects w p net =
     \<lparr>bo_network = net, bo_flags = flags_set p, bo_dla = Some (dlaCore p),
      bo_timingCache = (timingCacheFile p \<noteq> [] \<and> buildTimingCacheFromFile w (timingCacheFile p))\<rparr>"

definition engine_built :: "world \<Rightarrow> params \<Rightarrow> network \<Rightarrow> byte list \<Rightarrow> engine \<Rightarrow> bool" where
  "engine_built w p net plan eng \<longleftrightarrow>
     createInferBuilder w \<and> createNetworkV2 w \<and> createBuilderConfig w \<and> createParser w
     \<and> parseFromFile w (onnx_path w p) = Some net
     \<and> makeCudaStream w
     \<and> buildSerializedNetwork w (configured_objects w p net) = Some plan
     \<and> createInferRuntime w
     \<and> deserializeCudaEngine w plan (length plan) = Some eng"

definition build_trace :: "world \<Rightarrow> params \<Rightarrow> byte list \<Rightarrow> event list" where
  "build_trace w p plan =
     [Enter ''build'', CreateInferBuilder, CreateNetworkV2, CreateBuilderConfig, CreateParser,
      Enter ''constructNetwork'', ParseFromFile (onnx_path w p)]
     @ flag_events p
     @ [EnableDLA (dlaCore p), MakeCudaStream, SetProfileStream, BuildSerializedNetwork]
     @ (if timingCacheFile p \<noteq> [] \<and> buildTimingCacheFromFile w (timingCacheFile p)
        then [UpdateTimingCacheFile (timingCacheFile p)] else [])
     @ [CreateInferRuntime, DeserializeCudaEngine plan (length plan), SaveEngine (saveEngine p)]"


section \<open>A sample platform and sample runs\<close>

text \<open>
  The arithmetic of the sample world follows IEEE 754 on NaN, the infinities and the zeros
  and has the range of binary32; a finite result within the range is left unrounded. It is
  binary32 arithmetic wherever the exact result is a binary32 number, which is the case at
  every operation of the runs below. Its \<open>exp\<close> overflows from 89 on (\<open>e^89\<close> is above
  the largest float) and underflows to zero up to -104 (\<open>e^-104\<close> is below half of the
  smallest positive float).
\<close>

definition is_neg :: "f32 \<Rightarrow> bool" where
  "is_neg x \<longleftrightarrow> x = NInf \<or> x = NegZero \<or> fval x < 0"

definition is_inf :: "f32 \<Rightarrow> bool" where
  "is_inf x \<longleftrightarrow> x = PInf \<or> x = NInf"

definition is_zero :: "f32 \<Rightarrow> bool" where
  "is_zero x \<longleftrightarrow> x = NegZero \<or> x = Finite 0"

definition in_range :: "real \<Rightarrow> f32" where
  "in_range r = (if 2 ^ 128 \<le> r then PInf else if r \<le> - (2 ^ 128) then NInf else Finite r)"

definition sample_exp :: "f32 \<Rightarrow> f32" where
  "sample_exp x =
     (case x of
        Finite r \<Rightarrow> if 89 \<le> r then PInf else if r \<le> - 104 then Finite 0 else Finite (exp r)
      | NegZero \<Rightarrow> Finite 1
      | PInf \<Rightarrow> PInf
      | NInf \<Rightarrow> Finite 0
      | NaN \<Rightarrow> NaN)"

definition sample_add :: "f32 \<Rightarrow> f32 \<Rightarrow> f32" where
  "sample_add a b =
     (if a = NaN \<or> b = NaN \<or> (a = PInf \<and> b = NInf) \<or> (a = NInf \<and> b = PInf) then NaN
      else if is_inf a then a
      else if is_inf b then b
      else if a = NegZero \<and> b = NegZero then NegZero
      else in_range (fval a + fval b))"

definition sample_mul :: "f32 \<Rightarrow> f32 \<Rightarrow> f32" where
  "sample_mul a b =
     (if a = NaN \<or> b = NaN \<or> (is_zero a \<and> is_inf b) \<or> (is_inf a \<and> is_zero b) then NaN
      else if is_inf a \<or> is_inf b then (if is_neg a \<noteq> is_neg b then NInf else PInf)
      else if is_zero a \<or> is_zero b then (if is_neg a \<noteq> is_neg b then NegZero else Finite 0)
      else in_range (fval a * fval b))"

definition sample_div :: "f32 \<Rightarrow> f32 \<Rightarrow> f32" where
  "sample_div a b =
     (if a = NaN \<or> b = NaN \<or> (is_zero a \<and> is_zero b) \<or> (is_inf a \<and> is_inf b) then NaN
      else if is_inf a \<or> is_zero b then (if is_neg a \<noteq> is_neg b then NInf else PInf)
      else if is_inf b \<or> is_zero a then (if is_neg a \<noteq> is_neg b then NegZero else Finite 0)
      else in_range (fval a / fval b))"

text \<open>
  A world in which every vendor call succeeds: the parser finds the MNIST network, the
  engine has the two tensors of the model, the file \<open>mnist.engine\<close> holds a plan the
  deserializer accepts and \<open>empty.engine\<close> one it rejects, an engine cannot be saved under the
  empty name, \<^verbatim>\<open>rand()\<close> returns 1804289383, and the network answers the digit three: the
  logit 0 for the class three and -200 for the others.
\<close>

definition mnist_network :: network where
  "mnist_network =
     \<lparr>net_inputs = [\<lparr>nbDims = 4, d = [1, 1, 28, 28]\<rparr>], net_outputs = [\<lparr>nbDims = 2, d = [1, 10]\<rparr>]\<rparr>"

definition mnist_engine :: engine where
  "mnist_engine = \<lparr>ioTensorNames = [''Input3'', ''Plus214_Output_0'']\<rparr>"

definition blank_input :: "f32 list" where
  "blank_input = replicate 784 (Finite 0)"

definition blank_output :: "f32 list" where
  "blank_output = replicate 10 (Finite 0)"

definition demo_buffers :: buffers where
  "demo_buffers = [''Input3'' \<mapsto> blank_input, ''Plus214_Output_0'' \<mapsto> blank_output]"

definition demo_output :: "f32 list" where
  "demo_output =
     [Finite (- 200), Finite (- 200), Finite (- 200), Finite 0, Finite (- 200),
      Finite (- 200), Finite (- 200), Finite (- 200), Finite (- 200), Finite (- 200)]"



definition demo_world :: world where
  "demo_world =
     \<lparr>createInferBuilder = True, createNetworkV2 = True, createBuilderConfig = True,
      createParser = True,
      locateFile = (\<lambda>name dirs. (case dirs of [] \<Rightarrow> name | dir # _ \<Rightarrow> dir @ name)),
      parseFromFile = (\<lambda>path. Some mnist_network),
      buildTimingCacheFromFile = (\<lambda>f. True),
      makeCudaStream = True,
      buildSerializedNetwork = (\<lambda>b. Some [1, 2, 3]),
      createInferRuntime = True,
      deserializeCudaEngine =
        (\<lambda>plan n. if plan = [1, 2, 3] \<and> n = 3 then Some mnist_engine else None),
      saveEngineFile = (\<lambda>eng name. name \<noteq> []),
      files = [''mnist.engine'' \<mapsto> \<lparr>content = [1, 2, 3], read_error = False\<rparr>,
               ''empty.engine'' \<mapsto> \<lparr>content = [], read_error = False\<rparr>],
      hostBuffers = (\<lambda>eng. demo_buffers),
      createExecutionContext = (\<lambda>eng. True),
      rand = 1804289383,
      readPGMFile = (\<lambda>path h w. []),
      executeV2 = (\<lambda>eng bufs. Some (bufs(''Plus214_Output_0'' \<mapsto> demo_output))),
      f_exp = sample_exp, f_add = sample_add, f_mul = sample_mul, f_div = sample_div,
      pixel_to_float = (\<lambda>b. Finite (1 - real (unat b) / 255))\<rparr>"

text \<open>The arguments of five runs: build, load, load a rejected plan, help, build without a name to save under.\<close>

definition demo_args :: args where
  "demo_args =
     \<lparr>arg_help = False, arg_dataDirs = [], useDLACore = 1, runInInt8 = False,
      runInFp16 = True, runInBf16 = False, arg_timingCacheFile = [],
      arg_saveEngine = ''mnist.engine'', arg_loadEngine = []\<rparr>"

definition load_args :: args where
  "load_args = demo_args\<lparr>arg_loadEngine := ''mnist.engine''\<rparr>"

definition rejected_args :: args where
  "rejected_args = demo_args\<lparr>arg_loadEngine := ''empty.engine''\<rparr>"

definition help_args :: args where
  "help_args = demo_args\<lparr>arg_help := True\<rparr>"

definition nosave_args :: args where
  "nosave_args = demo_args\<lparr>arg_saveEngine := []\<rparr>"


text \<open>The trace \<^verbatim>\<open>infer\<close> leaves in the sample world.\<close>

definition demo_infer_trace :: "event list" where
  "demo_infer_trace =
     [Enter ''infer'', CreateBufferManager, CreateExecutionContext,
      SetTensorAddress ''Input3'', SetTensorAddress ''Plus214_Output_0'',
      Enter ''processInput'', ReadPGMFile ''data/mnist/3.pgm'' 28 28,
      CopyInputToDevice, ExecuteV2, CopyOutputToHost, Enter ''verifyOutput'']"

text \<open>
  A world whose parser finds a network with two inputs, and is otherwise the sample world.
\<close>

definition two_input_network :: network where
  "two_input_network =
     \<lparr>net_inputs = [\<lparr>nbDims = 4, d = [1, 1, 28, 28]\<rparr>, \<lparr>nbDims = 4, d = [1, 1, 28, 28]\<rparr>],
      net_outputs = [\<lparr>nbDims = 2, d = [1, 10]\<rparr>]\<rparr>"

definition two_input_world :: world where
  "two_input_world = demo_world\<lparr>parseFromFile := (\<lambda>path. Some two_input_network)\<rparr>"

section \<open>Properties: how a run is put together\<close>

lemmas run_simps = emit_def return_def bind_def die_def ASSERT_def

lemma verifyOutput_eq:
  "verifyOutput w bufs s = (verified w bufs s, s, [Enter ''verifyOutput''])"
  by (simp add: verified_def verifyOutput_def run_simps case_prod_beta
      split: list.split option.split sum.split)

lemma processInput_eq:
  "processInput w bufs s =
     (processed w bufs s, s\<lparr>mNumber := rand w smod 10\<rparr>,
      [Enter ''processInput'',
       ReadPGMFile (locateFile w (pgm_name (rand w smod 10)) (dataDirs (mParams s))) inputH inputW])"
  by (simp add: processed_def processInput_def run_simps Let_def split: list.split option.split)


lemma infer_eq:
  "infer w s =
    (case mEngine s of
       None \<Rightarrow> (Crashed NullDereference, s, [Enter ''infer'', CreateBufferManager])
     | Some eng \<Rightarrow>
        (let pre = [Enter ''infer'', CreateBufferManager, CreateExecutionContext];
             bind_events = map SetTensorAddress (ioTensorNames eng);
             s1 = s\<lparr>mNumber := rand w smod 10\<rparr>;
             input_events = [Enter ''processInput'',
               ReadPGMFile (locateFile w (pgm_name (rand w smod 10)) (dataDirs (mParams s))) inputH inputW]
         in if \<not> createExecutionContext w eng then (Returned False, s, pre)
            else if length (inputTensorNames (mParams s)) \<noteq> 1
              then (Crashed AssertionFailure, s, pre @ bind_events)
            else (case processed w (hostBuffers w eng) s of
                    Crashed c \<Rightarrow> (Crashed c, s1, pre @ bind_events @ input_events)
                  | Returned (ok, bufs1) \<Rightarrow>
                     if \<not> ok then (Returned False, s1, pre @ bind_events @ input_events)
                     else (case executeV2 w eng bufs1 of
                             None \<Rightarrow> (Returned False, s1,
                                pre @ bind_events @ input_events @ [CopyInputToDevice, ExecuteV2])
                           | Some bufs2 \<Rightarrow>
                              (verified w bufs2 s1, s1,
                               pre @ bind_events @ input_events
                               @ [CopyInputToDevice, ExecuteV2, CopyOutputToHost, Enter ''verifyOutput''])))))"
  by (simp add: infer_def processInput_eq verifyOutput_eq run_simps Let_def
      split: option.split outcome.split bool.split)


lemma check_shape_ok:
  "mnist_shape net \<Longrightarrow>
   check_shape net s =
     (Returned True, s\<lparr>mInputDims := net_inputs net ! 0, mOutputDims := net_outputs net ! 0\<rparr>, [])"
  by (simp add: check_shape_def mnist_shape_def run_simps Let_def)

lemma check_shape_abort:
  "\<not> mnist_shape net \<Longrightarrow> fst (check_shape net s) = Crashed AssertionFailure"
  by (auto simp add: check_shape_def mnist_shape_def run_simps Let_def)

lemma check_shape_trace: "snd (snd (check_shape net s)) = []"
  by (simp add: check_shape_def run_simps Let_def)


lemma build_eq:
  "build w s =
    (let p = mParams s;
         front = [Enter ''build'', CreateInferBuilder, CreateNetworkV2, CreateBuilderConfig,
                  CreateParser, Enter ''constructNetwork'', ParseFromFile (onnx_path w p)];
         config = front @ flag_events p @ [EnableDLA (dlaCore p), MakeCudaStream]
     in if \<not> createInferBuilder w then (Returned False, s, [Enter ''build'', CreateInferBuilder])
        else if \<not> createNetworkV2 w
          then (Returned False, s, [Enter ''build'', CreateInferBuilder, CreateNetworkV2])
        else if \<not> createBuilderConfig w
          then (Returned False, s,
                [Enter ''build'', CreateInferBuilder, CreateNetworkV2, CreateBuilderConfig])
        else if \<not> createParser w
          then (Returned False, s,
                [Enter ''build'', CreateInferBuilder, CreateNetworkV2, CreateBuilderConfig,
                 CreateParser])
        else (case parseFromFile w (onnx_path w p) of
                None \<Rightarrow> (Returned False, s, front)
              | Some net \<Rightarrow>
                 if \<not> makeCudaStream w then (Returned False, s, config)
                 else (case buildSerializedNetwork w (configured_objects w p net) of
                         None \<Rightarrow> (Returned False, s, config @ [SetProfileStream, BuildSerializedNetwork])
                       | Some plan \<Rightarrow>
                          if \<not> createInferRuntime w
                          then (Returned False, s\<lparr>mRuntime := None\<rparr>,
                                butlast (butlast (build_trace w p plan)))
                          else (case deserializeCudaEngine w plan (length plan) of
                                  None \<Rightarrow> (Returned False, s\<lparr>mRuntime := Some (), mEngine := None\<rparr>,
                                           butlast (build_trace w p plan))
                                | Some eng \<Rightarrow>
                                   (let s2 = s\<lparr>mRuntime := Some (), mEngine := Some eng\<rparr>
                                    in if \<not> saveEngineFile w eng (saveEngine p)
                                       then (Returned False, s2, build_trace w p plan)
                                       else (fst (check_shape net s2), fst (snd (check_shape net s2)),
                                             build_trace w p plan))))))"
  by (simp add: build_def constructNetwork_def fresh_objects_def configured_objects_def
      onnx_path_def build_trace_def check_shape_trace case_prod_beta butlast_append run_simps Let_def
      split: option.split)

lemma upt_outputSize: "[0..<outputSize] = [0, 1, 2, 3, 4, 5, 6, 7, 8, 9]"
  by (simp add: outputSize_def upt_rec)

lemma demo_arith [simp]:
  "f_exp demo_world = sample_exp" "f_add demo_world = sample_add"
  "f_mul demo_world = sample_mul" "f_div demo_world = sample_div"
  by (simp_all add: demo_world_def)

lemma sample_exp_values [simp]:
  "sample_exp (Finite 0) = Finite 1" "sample_exp (Finite (- 200)) = Finite 0"
  "sample_exp (Finite 89) = PInf"
  by (simp_all add: sample_exp_def)

lemma sample_star_count [simp]:
  "star_count demo_world (Finite 0) = Inr 0"
  "star_count demo_world (Finite 1) = Inr 10"
  "star_count demo_world (Finite (1 / 2)) = Inr 5"
  "star_count demo_world NaN = Inl FloatToIntOverflow"
  by (simp_all add: star_count_def sample_mul_def sample_add_def is_zero_def is_inf_def is_neg_def
      in_range_def)

lemma sample_add_values [simp]:
  "sample_add (Finite 0) (Finite 0) = Finite 0"
  "sample_add (Finite 0) (Finite 1) = Finite 1"
  "sample_add (Finite 1) (Finite 0) = Finite 1"
  "sample_add (Finite 1) (Finite 1) = Finite 2"
  "sample_add (Finite 2) (Finite 0) = Finite 2"
  "sample_add (Finite 2) (Finite 1) = Finite 3"
  "sample_add (Finite 3) PInf = PInf"
  "sample_add PInf (Finite 1) = PInf"
  by (simp_all add: sample_add_def is_inf_def in_range_def)

lemma sample_div_values [simp]:
  "sample_div (Finite 0) (Finite 1) = Finite 0"
  "sample_div (Finite 1) (Finite 1) = Finite 1"
  "sample_div (Finite 0) (Finite 2) = Finite 0"
  "sample_div (Finite 1) (Finite 2) = Finite (1 / 2)"
  "sample_div (Finite 1) PInf = Finite 0"
  "sample_div PInf PInf = NaN"
  by (simp_all add: sample_div_def is_zero_def is_inf_def is_neg_def in_range_def)

lemma demo_output_loops:
  "verifyOutput_loops demo_world demo_output =
     Inr ([Finite 0, Finite 0, Finite 0, Finite 1, Finite 0, Finite 0, Finite 0, Finite 0,
           Finite 0, Finite 0], Finite 1, 3)"
proof -
  have l1: "foldl (exp_step demo_world) (demo_output, Finite 0) [0..<outputSize] =
      ([Finite 0, Finite 0, Finite 0, Finite 1, Finite 0, Finite 0, Finite 0, Finite 0,
        Finite 0, Finite 0], Finite 1)"
    by (simp add: demo_output_def upt_outputSize exp_step_def Let_def)
  have l2: "foldl (div_step demo_world (Finite 1))
      (Inr ([Finite 0, Finite 0, Finite 0, Finite 1, Finite 0, Finite 0, Finite 0, Finite 0,
        Finite 0, Finite 0], Finite 0, 0)) [0..<outputSize] =
     Inr ([Finite 0, Finite 0, Finite 0, Finite 1, Finite 0, Finite 0, Finite 0, Finite 0,
           Finite 0, Finite 0], Finite 1, 3)"
    by (simp add: upt_outputSize div_step_def Let_def f_max_def f_lt_def f_eq_def)
  show ?thesis
    by (simp only: verifyOutput_loops_def l1 prod.case l2)
qed





lemma f_lt_NaN [simp]: "\<not> f_lt NaN b" "\<not> f_lt a NaN" "\<not> f_eq NaN b" "\<not> f_eq a NaN"
  by (simp_all add: f_lt_def f_eq_def)

lemma f_max_not_NaN: "a \<noteq> NaN \<Longrightarrow> f_max a b \<noteq> NaN"
  by (auto simp: f_max_def f_lt_def)













lemma verifyOutput_returns:
  assumes names: "outputTensorNames (mParams s) = name # names"
    and buf: "bufs name = Some out" and len: "length out = outputSize"
    and run: "verifyOutput_loops w out = Inr (q, val, idx)"
  shows "verifyOutput w bufs s =
    (Returned (int idx = mNumber s \<and> f_lt c_0_9F val), s, [Enter ''verifyOutput''])"
  using assms by (simp add: verifyOutput_def run_simps)













lemma loadV3_ok:
  assumes "files w (loadEngine (mParams s)) = Some f" "\<not> read_error f" "createInferRuntime w"
  shows "loadV3 w s =
    (Returned True,
     s\<lparr>mRuntime := Some (), mEngine := deserializeCudaEngine w (content f) (length (content f))\<rparr>,
     [Enter ''loadV3'', OpenEngineFile (loadEngine (mParams s)), ReadEngineFile (length (content f)),
      CreateInferRuntime, DeserializeCudaEngine (content f) (length (content f))])"
  using assms by (simp add: loadV3_def run_simps Let_def)

lemma demo_rand: "rand demo_world smod 10 = 3"
  by (simp add: demo_world_def signed_modulo_int_def)

lemma demo_pgm: "pgm_name 3 = ''3.pgm''"
  by (simp add: pgm_name_def to_string_def digit_char_def)

lemma blank_input_length: "\<not> length blank_input < inputH * inputW"
  by (simp only: blank_input_def length_replicate inputH_def inputW_def)

lemma processed_ok:
  assumes "inputTensorNames (mParams s) = name # ns" "bufs name = Some hb"
    "\<not> length hb < inputH * inputW"
  shows "processed w bufs s =
    Returned (True, bufs(name \<mapsto> map (pixel_to_float w)
        (fileData_of w (locateFile w (pgm_name (rand w smod 10)) (dataDirs (mParams s))))
          @ drop (inputH * inputW) hb))"
  using assms by (simp add: processed_def processInput_def run_simps Let_def)

lemma verified_demo:
  assumes "outputTensorNames (mParams s) = [''Plus214_Output_0'']" "mNumber s = 3"
  shows "verified demo_world (bufs(''Plus214_Output_0'' \<mapsto> demo_output)) s = Returned True"
proof -
  have l: "length demo_output = outputSize" by (simp add: demo_output_def outputSize_def)
  have "verifyOutput demo_world (bufs(''Plus214_Output_0'' \<mapsto> demo_output)) s =
      (Returned (int 3 = mNumber s \<and> f_lt c_0_9F (Finite 1)), s, [Enter ''verifyOutput''])"
    by (rule verifyOutput_returns [where name = "''Plus214_Output_0''" and names = "[]"
          and out = demo_output, OF _ _ l demo_output_loops]) (simp_all add: assms)
  then show ?thesis by (simp add: verified_def assms f_lt_def c_0_9F_def)
qed

lemma infer_demo:
  assumes e: "mEngine s = Some mnist_engine"
    and i: "inputTensorNames (mParams s) = [''Input3'']"
    and out: "outputTensorNames (mParams s) = [''Plus214_Output_0'']"
    and dirs: "dataDirs (mParams s) = [''data/mnist/'', ''data/samples/mnist/'']"
  shows "infer demo_world s = (Returned True, s\<lparr>mNumber := 3\<rparr>, demo_infer_trace)"
proof -
  have b: "demo_buffers ''Input3'' = Some blank_input"
    by (simp add: demo_buffers_def)
  have path: "locateFile demo_world (pgm_name 3) (dataDirs (mParams s)) = ''data/mnist/3.pgm''"
    by (simp add: demo_pgm dirs demo_world_def)
  note P = processed_ok [where w = demo_world and s = s and bufs = demo_buffers, OF i b blank_input_length,
      unfolded demo_rand path]
  have w: "createExecutionContext demo_world mnist_engine"
    "hostBuffers demo_world mnist_engine = demo_buffers"
    "executeV2 demo_world mnist_engine bufs = Some (bufs(''Plus214_Output_0'' \<mapsto> demo_output))" for bufs
    by (simp_all add: demo_world_def)
  have n: "ioTensorNames mnist_engine = [''Input3'', ''Plus214_Output_0'']"
    by (simp add: mnist_engine_def)
  have V: "verified demo_world (bufs(''Plus214_Output_0'' \<mapsto> demo_output)) (s\<lparr>mNumber := 3\<rparr>)
      = Returned True" for bufs
    by (rule verified_demo) (simp_all add: out)
  have hw: "inputH = 28" "inputW = 28" by (simp_all add: inputH_def inputW_def)
  show ?thesis
    unfolding infer_eq
    by (simp add: e i w n P V demo_rand path hw demo_infer_trace_def Let_def del: fun_upd_apply)
qed

lemma count_map_SetTensorAddress [simp]:
  "count_list (map SetTensorAddress ns) (Enter m) = 0"
  by (induction ns) auto

lemma count_flag_events [simp]: "count_list (flag_events p) (Enter m) = 0"
  by (simp add: flag_events_def)

lemma loadV3_count:
  "count_list (snd (snd (loadV3 w s))) (Enter ''loadV3'') = 1"
  "count_list (snd (snd (loadV3 w s))) (Enter ''build'') = 0"
  by (simp_all add: loadV3_def run_simps Let_def split: option.split)

lemma infer_count:
  "count_list (snd (snd (infer w s))) (Enter ''loadV3'') = 0"
  "count_list (snd (snd (infer w s))) (Enter ''build'') = 0"
  by (simp_all add: infer_eq Let_def split: option.split outcome.split prod.split)

lemma build_count:
  "count_list (snd (snd (build w s))) (Enter ''loadV3'') = 0"
  "count_list (snd (snd (build w s))) (Enter ''build'') = 1"
  by (simp_all add: build_eq build_trace_def butlast_append Let_def split: option.split)

lemma main_run:
  assumes "\<not> arg_help a"
    and "acquire w (SampleOnnxMNIST (initializeSampleParams a)) = (r1, s1, t1)"
    and "infer w s1 = (r2, s2, t2)"
  shows "main w True a =
    (case r1 of
       Returned True \<Rightarrow>
         (case r2 of
            Returned True \<Rightarrow> (Pass_Report, ReportTestStart # t1 @ t2 @ [ReportPass])
          | Returned False \<Rightarrow> (Fail_Report, ReportTestStart # t1 @ t2 @ [ReportFail])
          | Crashed c \<Rightarrow> (Died c, ReportTestStart # t1 @ t2))
     | Returned False \<Rightarrow> (Fail_Report, ReportTestStart # t1 @ [ReportFail])
     | Crashed c \<Rightarrow> (Died c, ReportTestStart # t1))"
  using assms by (simp add: main_def finish_def run_simps split: outcome.split bool.split)

lemma acquire_count:
  "count_list (snd (snd (acquire w (SampleOnnxMNIST (initializeSampleParams a))))) (Enter ''loadV3'')
     = (if arg_loadEngine a \<noteq> [] then 1 else 0)"
  "count_list (snd (snd (acquire w (SampleOnnxMNIST (initializeSampleParams a))))) (Enter ''build'')
     = (if arg_loadEngine a = [] then 1 else 0)"
  by (simp_all add: acquire_def checkEngineLoad_def loadV3_count build_count
      SampleOnnxMNIST_def initializeSampleParams_def)

text \<open>
  C3, as amended. On every run with valid arguments that does not ask for help, exactly one
  of the two ways to acquire the engine is taken, once: \<^verbatim>\<open>loadV3\<close> when and only when the
  load-engine parameter is a non-empty string, \<^verbatim>\<open>build\<close> otherwise.
\<close>

theorem main_one_acquisition_path:
  assumes "\<not> arg_help a"
  shows "count_list (snd (main w True a)) (Enter ''loadV3'') = (if arg_loadEngine a \<noteq> [] then 1 else 0)
       \<and> count_list (snd (main w True a)) (Enter ''build'') = (if arg_loadEngine a = [] then 1 else 0)"
proof -
  obtain r1 s1 t1 where A: "acquire w (SampleOnnxMNIST (initializeSampleParams a)) = (r1, s1, t1)"
    by (cases "acquire w (SampleOnnxMNIST (initializeSampleParams a))") auto
  obtain r2 s2 t2 where I: "infer w s1 = (r2, s2, t2)"
    by (cases "infer w s1") auto
  have t1: "count_list t1 (Enter ''loadV3'') = (if arg_loadEngine a \<noteq> [] then 1 else 0)"
      "count_list t1 (Enter ''build'') = (if arg_loadEngine a = [] then 1 else 0)"
    using acquire_count [of w a] by (simp_all add: A)
  have t2: "count_list t2 (Enter ''loadV3'') = 0" "count_list t2 (Enter ''build'') = 0"
    using infer_count [of w s1] by (simp_all add: I)
  show ?thesis
    by (simp add: main_run [OF assms A I] t1 t2 split: outcome.split bool.split)
qed

theorem main_one_acquisition_path_witness:
  "\<not> arg_help load_args
   \<and> arg_loadEngine load_args \<noteq> []
   \<and> count_list (snd (main demo_world True load_args)) (Enter ''loadV3'') = 1
   \<and> count_list (snd (main demo_world True load_args)) (Enter ''build'') = 0"
proof -
  have h: "\<not> arg_help load_args" by (simp add: load_args_def demo_args_def)
  have l: "arg_loadEngine load_args \<noteq> []" by (simp add: load_args_def)
  from main_one_acquisition_path [OF h, of demo_world] h l show ?thesis by simp
qed

text \<open>
  C3 as stated fails on a run with valid arguments that asks for help: the program prints
  the help text and ends with \<^verbatim>\<open>EXIT_SUCCESS\<close>, and neither \<^verbatim>\<open>loadV3\<close> nor \<^verbatim>\<open>build\<close> runs.
\<close>

theorem help_run_takes_no_path:
  "main demo_world True help_args = (EXIT_SUCCESS, [PrintHelpInfo])
   \<and> count_list (snd (main demo_world True help_args)) (Enter ''loadV3'') = 0
   \<and> count_list (snd (main demo_world True help_args)) (Enter ''build'') = 0"
  by (simp add: main_def help_args_def)

text \<open>
  C7. When the engine file opens and is read without error and the runtime is created,
  \<^verbatim>\<open>loadV3\<close> reads as many bytes as the file has, hands exactly the content of the file and
  its length to the deserializer, and returns true: whatever the bytes are, they decide
  nothing in \<^verbatim>\<open>loadV3\<close> but the engine the deserializer answers.
\<close>

theorem loadV3_hands_file_wholesale:
  assumes "files w (loadEngine (mParams s)) = Some f" "\<not> read_error f" "createInferRuntime w"
  shows "loadV3 w s =
    (Returned True,
     s\<lparr>mRuntime := Some (), mEngine := deserializeCudaEngine w (content f) (length (content f))\<rparr>,
     [Enter ''loadV3'', OpenEngineFile (loadEngine (mParams s)), ReadEngineFile (length (content f)),
      CreateInferRuntime, DeserializeCudaEngine (content f) (length (content f))])"
  using assms by (rule loadV3_ok)

lemma load_sample:
  "mParams (SampleOnnxMNIST p) = p"
  "mEngine (SampleOnnxMNIST p) = None"
  "mRuntime (SampleOnnxMNIST p) = None"
  "loadEngine (initializeSampleParams a) = arg_loadEngine a"
  "saveEngine (initializeSampleParams a) = arg_saveEngine a"
  "dlaCore (initializeSampleParams a) = useDLACore a"
  "int8 (initializeSampleParams a) = runInInt8 a"
  "fp16 (initializeSampleParams a) = runInFp16 a"
  "bf16 (initializeSampleParams a) = runInBf16 a"
  "timingCacheFile (initializeSampleParams a) = arg_timingCacheFile a"
  "onnxFileName (initializeSampleParams a) = ''mnist.onnx''"
  "inputTensorNames (initializeSampleParams a) = [''Input3'']"
  "outputTensorNames (initializeSampleParams a) = [''Plus214_Output_0'']"
  "dataDirs (initializeSampleParams a) =
     (if arg_dataDirs a = [] then [''data/mnist/'', ''data/samples/mnist/''] else arg_dataDirs a)"
  by (simp_all add: SampleOnnxMNIST_def initializeSampleParams_def)

theorem loadV3_hands_file_wholesale_witness:
  "files demo_world (loadEngine (mParams (SampleOnnxMNIST (initializeSampleParams load_args))))
     = Some \<lparr>content = [1, 2, 3], read_error = False\<rparr>
   \<and> createInferRuntime demo_world
   \<and> loadV3 demo_world (SampleOnnxMNIST (initializeSampleParams load_args)) =
       (Returned True,
        (SampleOnnxMNIST (initializeSampleParams load_args))
          \<lparr>mRuntime := Some (), mEngine := Some mnist_engine\<rparr>,
        [Enter ''loadV3'', OpenEngineFile ''mnist.engine'', ReadEngineFile 3,
         CreateInferRuntime, DeserializeCudaEngine [1, 2, 3] 3])"
proof -
  have f: "files demo_world (loadEngine (mParams (SampleOnnxMNIST (initializeSampleParams load_args))))
     = Some \<lparr>content = [1, 2, 3], read_error = False\<rparr>"
    by (simp add: load_sample load_args_def demo_world_def)
  have r: "createInferRuntime demo_world" by (simp add: demo_world_def)
  have d: "deserializeCudaEngine demo_world [1, 2, 3] (Suc (Suc (Suc 0))) = Some mnist_engine"
    by (simp add: demo_world_def)
  from loadV3_hands_file_wholesale [OF f _ r] f r d show ?thesis
    by (simp add: load_sample load_args_def)
qed

text \<open>
  C2 fails on the load path. The deserializer rejects the plan of \<open>empty.engine\<close> with a
  null engine; \<^verbatim>\<open>loadV3\<close> returns true all the same, \<^verbatim>\<open>infer\<close> runs on the null engine, and
  the program dies in it without a fail report.
\<close>

theorem load_rejected_plan_not_reported:
  "deserializeCudaEngine demo_world [] 0 = None
   \<and> loadV3 demo_world (SampleOnnxMNIST (initializeSampleParams rejected_args)) =
       (Returned True,
        (SampleOnnxMNIST (initializeSampleParams rejected_args))\<lparr>mRuntime := Some (), mEngine := None\<rparr>,
        [Enter ''loadV3'', OpenEngineFile ''empty.engine'', ReadEngineFile 0,
         CreateInferRuntime, DeserializeCudaEngine [] 0])
   \<and> main demo_world True rejected_args =
       (Died NullDereference,
        [ReportTestStart, Enter ''loadV3'', OpenEngineFile ''empty.engine'', ReadEngineFile 0,
         CreateInferRuntime, DeserializeCudaEngine [] 0, Enter ''infer'', CreateBufferManager])"
proof -
  let ?s = "SampleOnnxMNIST (initializeSampleParams rejected_args)"
  have f: "files demo_world (loadEngine (mParams ?s)) = Some \<lparr>content = [], read_error = False\<rparr>"
    by (simp add: load_sample rejected_args_def demo_world_def)
  have r: "createInferRuntime demo_world" by (simp add: demo_world_def)
  have d: "deserializeCudaEngine demo_world [] 0 = None"
    by (simp add: demo_world_def)
  have L: "loadV3 demo_world ?s =
       (Returned True, ?s\<lparr>mRuntime := Some (), mEngine := None\<rparr>,
        [Enter ''loadV3'', OpenEngineFile ''empty.engine'', ReadEngineFile 0,
         CreateInferRuntime, DeserializeCudaEngine [] 0])"
    using loadV3_ok [OF f _ r] d by (simp add: load_sample rejected_args_def)
  have A: "acquire demo_world ?s = (Returned True, ?s\<lparr>mRuntime := Some (), mEngine := None\<rparr>,
        [Enter ''loadV3'', OpenEngineFile ''empty.engine'', ReadEngineFile 0,
         CreateInferRuntime, DeserializeCudaEngine [] 0])"
    by (simp add: acquire_def checkEngineLoad_def load_sample rejected_args_def L [unfolded rejected_args_def])
  have I: "infer demo_world (?s\<lparr>mRuntime := Some (), mEngine := None\<rparr>) =
      (Crashed NullDereference, ?s\<lparr>mRuntime := Some (), mEngine := None\<rparr>,
       [Enter ''infer'', CreateBufferManager])"
    by (simp add: infer_eq)
  have h: "\<not> arg_help rejected_args" by (simp add: rejected_args_def demo_args_def)
  show ?thesis using d L main_run [OF h A I] by simp
qed

lemma build_to_save:
  assumes "engine_built w (mParams s) net plan eng"
  shows "build w s =
    (let s2 = s\<lparr>mRuntime := Some (), mEngine := Some eng\<rparr>
     in if \<not> saveEngineFile w eng (saveEngine (mParams s))
        then (Returned False, s2, build_trace w (mParams s) plan)
        else (fst (check_shape net s2), fst (snd (check_shape net s2)), build_trace w (mParams s) plan))"
  using assms by (simp add: engine_built_def build_eq Let_def)

lemma acquire_build:
  "arg_loadEngine a = [] \<Longrightarrow>
   acquire w (SampleOnnxMNIST (initializeSampleParams a)) = build w (SampleOnnxMNIST (initializeSampleParams a))"
  by (simp add: acquire_def checkEngineLoad_def load_sample)

lemma acquire_load:
  "arg_loadEngine a \<noteq> [] \<Longrightarrow>
   acquire w (SampleOnnxMNIST (initializeSampleParams a)) = loadV3 w (SampleOnnxMNIST (initializeSampleParams a))"
  by (simp add: acquire_def checkEngineLoad_def load_sample)

lemma main_acquire_failed:
  assumes "\<not> arg_help a"
    and "acquire w (SampleOnnxMNIST (initializeSampleParams a)) = (Returned False, s1, t1)"
  shows "main w True a = (Fail_Report, ReportTestStart # t1 @ [ReportFail])"
  using assms by (simp add: main_def finish_def run_simps)

lemma main_acquire_crashed:
  assumes "\<not> arg_help a"
    and "acquire w (SampleOnnxMNIST (initializeSampleParams a)) = (Crashed c, s1, t1)"
  shows "main w True a = (Died c, ReportTestStart # t1)"
  using assms by (simp add: main_def finish_def run_simps)

lemma last_build_trace: "last (build_trace w p plan) = SaveEngine (saveEngine p)"
  by (simp add: build_trace_def)

text \<open>
  C8. On the build path, once the engine is built and deserialized, \<^verbatim>\<open>build\<close> calls
  \<^verbatim>\<open>saveEngine\<close> with the \<^verbatim>\<open>saveEngine\<close> parameter as the file name, whatever it is, the empty
  name included. If the save fails, \<^verbatim>\<open>build\<close> returns false with the engine in place, and
  the run ends with the fail report, before \<^verbatim>\<open>infer\<close>.
\<close>

theorem build_save_failure_fails_run:
  assumes nohelp: "\<not> arg_help a" and path: "arg_loadEngine a = []"
    and built: "engine_built w (initializeSampleParams a) net plan eng"
  shows "snd (snd (build w (SampleOnnxMNIST (initializeSampleParams a))))
           = build_trace w (initializeSampleParams a) plan
       \<and> last (build_trace w (initializeSampleParams a) plan) = SaveEngine (arg_saveEngine a)
       \<and> (\<not> saveEngineFile w eng (arg_saveEngine a) \<longrightarrow>
            build w (SampleOnnxMNIST (initializeSampleParams a)) =
              (Returned False,
               (SampleOnnxMNIST (initializeSampleParams a))\<lparr>mRuntime := Some (), mEngine := Some eng\<rparr>,
               build_trace w (initializeSampleParams a) plan)
            \<and> main w True a =
              (Fail_Report, ReportTestStart # build_trace w (initializeSampleParams a) plan @ [ReportFail]))"
proof -
  let ?s = "SampleOnnxMNIST (initializeSampleParams a)"
  have b: "engine_built w (mParams ?s) net plan eng" using built by (simp add: load_sample)
  note B = build_to_save [OF b, unfolded load_sample]
  have t: "snd (snd (build w ?s)) = build_trace w (initializeSampleParams a) plan"
    by (simp add: B Let_def)
  have l: "last (build_trace w (initializeSampleParams a) plan) = SaveEngine (arg_saveEngine a)"
    by (simp add: last_build_trace load_sample)
  have f: "build w ?s = (Returned False, ?s\<lparr>mRuntime := Some (), mEngine := Some eng\<rparr>,
               build_trace w (initializeSampleParams a) plan)
        \<and> main w True a =
              (Fail_Report, ReportTestStart # build_trace w (initializeSampleParams a) plan @ [ReportFail])"
    if ns: "\<not> saveEngineFile w eng (arg_saveEngine a)"
  proof -
    have r: "build w ?s = (Returned False, ?s\<lparr>mRuntime := Some (), mEngine := Some eng\<rparr>,
               build_trace w (initializeSampleParams a) plan)"
      using ns by (simp add: B Let_def)
    then have "acquire w ?s = (Returned False, ?s\<lparr>mRuntime := Some (), mEngine := Some eng\<rparr>,
               build_trace w (initializeSampleParams a) plan)"
      by (simp add: acquire_build [OF path])
    from main_acquire_failed [OF nohelp this] r show ?thesis by simp
  qed
  from t l f show ?thesis by blast
qed

lemma demo_engine_built:
  assumes "arg_dataDirs a = []"
  shows "engine_built demo_world (initializeSampleParams a) mnist_network [1, 2, 3] mnist_engine"
  by (simp add: engine_built_def demo_world_def)

lemma demo_build_trace:
  "build_trace demo_world (initializeSampleParams nosave_args) [1, 2, 3] =
     [Enter ''build'', CreateInferBuilder, CreateNetworkV2, CreateBuilderConfig, CreateParser,
      Enter ''constructNetwork'', ParseFromFile ''data/mnist/mnist.onnx'', SetFlag kFP16,
      EnableDLA 1, MakeCudaStream, SetProfileStream, BuildSerializedNetwork, CreateInferRuntime,
      DeserializeCudaEngine [1, 2, 3] 3, SaveEngine []]"
  by (simp add: build_trace_def onnx_path_def flag_events_def load_sample nosave_args_def
      demo_args_def) (simp add: demo_world_def)

theorem build_save_failure_fails_run_witness:
  "\<not> arg_help nosave_args \<and> arg_loadEngine nosave_args = [] \<and> arg_saveEngine nosave_args = []
   \<and> engine_built demo_world (initializeSampleParams nosave_args) mnist_network [1, 2, 3] mnist_engine
   \<and> \<not> saveEngineFile demo_world mnist_engine (arg_saveEngine nosave_args)
   \<and> main demo_world True nosave_args =
       (Fail_Report,
        [ReportTestStart, Enter ''build'', CreateInferBuilder, CreateNetworkV2, CreateBuilderConfig,
         CreateParser, Enter ''constructNetwork'', ParseFromFile ''data/mnist/mnist.onnx'',
         SetFlag kFP16, EnableDLA 1, MakeCudaStream, SetProfileStream, BuildSerializedNetwork,
         CreateInferRuntime, DeserializeCudaEngine [1, 2, 3] 3, SaveEngine [], ReportFail])"
proof -
  have h: "\<not> arg_help nosave_args" "arg_loadEngine nosave_args = []" "arg_saveEngine nosave_args = []"
    by (simp_all add: nosave_args_def demo_args_def)
  have e: "engine_built demo_world (initializeSampleParams nosave_args) mnist_network [1, 2, 3] mnist_engine"
    by (rule demo_engine_built) (simp add: nosave_args_def demo_args_def)
  have s: "\<not> saveEngineFile demo_world mnist_engine (arg_saveEngine nosave_args)"
    by (simp add: h demo_world_def)
  from build_save_failure_fails_run [OF h(1) h(2) e] h e s show ?thesis
    by (simp add: demo_build_trace)
qed

text \<open>
  C10, as amended. When every step of \<^verbatim>\<open>build\<close> before the assertions has succeeded, the
  save of the engine included, \<^verbatim>\<open>build\<close> returns true if the parsed network has the MNIST
  shape (one input of four dimensions, one output of two); for any other shape an assertion
  fails and the program dies in \<^verbatim>\<open>build\<close>, with no fail report.
\<close>

theorem build_shape_assertions:
  assumes nohelp: "\<not> arg_help a" and path: "arg_loadEngine a = []"
    and built: "engine_built w (initializeSampleParams a) net plan eng"
    and saved: "saveEngineFile w eng (arg_saveEngine a)"
  shows "(mnist_shape net \<longrightarrow>
            build w (SampleOnnxMNIST (initializeSampleParams a)) =
              (Returned True,
               (SampleOnnxMNIST (initializeSampleParams a))
                 \<lparr>mRuntime := Some (), mEngine := Some eng,
                  mInputDims := net_inputs net ! 0, mOutputDims := net_outputs net ! 0\<rparr>,
               build_trace w (initializeSampleParams a) plan))
       \<and> (\<not> mnist_shape net \<longrightarrow>
            fst (build w (SampleOnnxMNIST (initializeSampleParams a))) = Crashed AssertionFailure
            \<and> main w True a =
                (Died AssertionFailure, ReportTestStart # build_trace w (initializeSampleParams a) plan))"
proof -
  let ?s = "SampleOnnxMNIST (initializeSampleParams a)"
  let ?s2 = "?s\<lparr>mRuntime := Some (), mEngine := Some eng\<rparr>"
  have b: "engine_built w (mParams ?s) net plan eng" using built by (simp add: load_sample)
  have B: "build w ?s = (fst (check_shape net ?s2), fst (snd (check_shape net ?s2)),
      build_trace w (initializeSampleParams a) plan)"
    using build_to_save [OF b] saved by (simp add: load_sample Let_def)
  have ok: "build w ?s = (Returned True,
      ?s\<lparr>mRuntime := Some (), mEngine := Some eng,
          mInputDims := net_inputs net ! 0, mOutputDims := net_outputs net ! 0\<rparr>,
      build_trace w (initializeSampleParams a) plan)" if "mnist_shape net"
    using that by (simp add: B check_shape_ok)
  have bad: "fst (build w ?s) = Crashed AssertionFailure
      \<and> main w True a =
          (Died AssertionFailure, ReportTestStart # build_trace w (initializeSampleParams a) plan)"
    if ns: "\<not> mnist_shape net"
  proof -
    have c: "fst (check_shape net ?s2) = Crashed AssertionFailure"
      using ns by (rule check_shape_abort)
    then have "acquire w ?s = (Crashed AssertionFailure, fst (snd (check_shape net ?s2)),
        build_trace w (initializeSampleParams a) plan)"
      by (simp add: acquire_build [OF path] B)
    from main_acquire_crashed [OF nohelp this] c show ?thesis by (simp add: B)
  qed
  from ok bad show ?thesis by blast
qed

lemma two_input_engine_built:
  "engine_built two_input_world (initializeSampleParams demo_args) two_input_network [1, 2, 3] mnist_engine"
  by (simp add: engine_built_def two_input_world_def demo_world_def)

theorem build_shape_assertions_witness:
  "\<not> arg_help demo_args \<and> arg_loadEngine demo_args = []
   \<and> engine_built two_input_world (initializeSampleParams demo_args) two_input_network [1, 2, 3]
        mnist_engine
   \<and> saveEngineFile two_input_world mnist_engine (arg_saveEngine demo_args)
   \<and> \<not> mnist_shape two_input_network
   \<and> fst (build two_input_world (SampleOnnxMNIST (initializeSampleParams demo_args)))
       = Crashed AssertionFailure
   \<and> fst (main two_input_world True demo_args) = Died AssertionFailure"
proof -
  have h: "\<not> arg_help demo_args" "arg_loadEngine demo_args = []"
    by (simp_all add: demo_args_def)
  have s: "saveEngineFile two_input_world mnist_engine (arg_saveEngine demo_args)"
    by (simp add: two_input_world_def demo_world_def demo_args_def)
  have n: "\<not> mnist_shape two_input_network"
    by (simp add: mnist_shape_def two_input_network_def)
  from build_shape_assertions [OF h two_input_engine_built s] h two_input_engine_built s n
  show ?thesis by simp
qed

lemma nosave_build_returns_false:
  assumes e: "engine_built w (initializeSampleParams nosave_args) net plan eng"
    and s: "\<not> saveEngineFile w eng []"
  shows "fst (build w (SampleOnnxMNIST (initializeSampleParams nosave_args))) = Returned False
       \<and> fst (main w True nosave_args) = Fail_Report"
proof -
  have h: "\<not> arg_help nosave_args" "arg_loadEngine nosave_args = []" "arg_saveEngine nosave_args = []"
    by (simp_all add: nosave_args_def demo_args_def)
  have b: "engine_built w (mParams (SampleOnnxMNIST (initializeSampleParams nosave_args)))
      net plan eng"
    using e by (simp add: load_sample)
  have B: "build w (SampleOnnxMNIST (initializeSampleParams nosave_args)) =
      (Returned False,
       (SampleOnnxMNIST (initializeSampleParams nosave_args))\<lparr>mRuntime := Some (), mEngine := Some eng\<rparr>,
       build_trace w (initializeSampleParams nosave_args) plan)"
    using build_to_save [OF b] s by (simp add: load_sample Let_def h)
  then have A: "acquire w (SampleOnnxMNIST (initializeSampleParams nosave_args)) =
      (Returned False,
       (SampleOnnxMNIST (initializeSampleParams nosave_args))\<lparr>mRuntime := Some (), mEngine := Some eng\<rparr>,
       build_trace w (initializeSampleParams nosave_args) plan)"
    by (simp add: acquire_build [OF h(2)])
  from B main_acquire_failed [OF h(1) A] show ?thesis by simp
qed

text \<open>
  C10 as stated fails, both ways, when no name to save the engine under was given. The
  model is parsed and has the MNIST shape: \<^verbatim>\<open>build\<close> returns false and does not reach its
  normal return. The model is parsed and has two inputs: \<^verbatim>\<open>build\<close> returns false too, and
  no assertion is reached.
\<close>

theorem mnist_shape_build_returns_false:
  "mnist_shape mnist_network
   \<and> parseFromFile demo_world (onnx_path demo_world (initializeSampleParams nosave_args))
       = Some mnist_network
   \<and> fst (build demo_world (SampleOnnxMNIST (initializeSampleParams nosave_args))) = Returned False
   \<and> fst (main demo_world True nosave_args) = Fail_Report
   \<and> \<not> mnist_shape two_input_network
   \<and> parseFromFile two_input_world (onnx_path two_input_world (initializeSampleParams nosave_args))
       = Some two_input_network
   \<and> fst (build two_input_world (SampleOnnxMNIST (initializeSampleParams nosave_args)))
       = Returned False
   \<and> fst (main two_input_world True nosave_args) = Fail_Report"
proof -
  have e: "engine_built demo_world (initializeSampleParams nosave_args) mnist_network [1, 2, 3] mnist_engine"
    by (rule demo_engine_built) (simp add: nosave_args_def demo_args_def)
  have s: "\<not> saveEngineFile demo_world mnist_engine []"
    by (simp add: demo_world_def)
  have m: "mnist_shape mnist_network"
    by (simp add: mnist_shape_def mnist_network_def)
  have p: "parseFromFile demo_world (onnx_path demo_world (initializeSampleParams nosave_args))
       = Some mnist_network"
    by (simp add: demo_world_def)
  have e2: "engine_built two_input_world (initializeSampleParams nosave_args) two_input_network
      [1, 2, 3] mnist_engine"
    by (simp add: engine_built_def two_input_world_def demo_world_def)
  have s2: "\<not> saveEngineFile two_input_world mnist_engine []"
    by (simp add: two_input_world_def demo_world_def)
  have m2: "\<not> mnist_shape two_input_network"
    by (simp add: mnist_shape_def two_input_network_def)
  have p2: "parseFromFile two_input_world (onnx_path two_input_world (initializeSampleParams nosave_args))
       = Some two_input_network"
    by (simp add: two_input_world_def)
  from m p nosave_build_returns_false [OF e s] m2 p2 nosave_build_returns_false [OF e2 s2]
  show ?thesis by simp
qed

lemma no_config_SetTensorAddress: "x \<in> set (map SetTensorAddress ns) \<Longrightarrow> \<not> is_config x"
  by auto

lemma infer_no_config: "x \<in> set (snd (snd (infer w s))) \<Longrightarrow> \<not> is_config x"
  by (auto simp add: infer_eq Let_def split: option.splits outcome.splits prod.splits if_splits)

lemma main_config_events:
  assumes "\<not> arg_help a" "is_config x"
  shows "x \<in> set (snd (main w True a))
     \<longleftrightarrow> x \<in> set (snd (snd (acquire w (SampleOnnxMNIST (initializeSampleParams a)))))"
proof -
  obtain r1 s1 t1 where A: "acquire w (SampleOnnxMNIST (initializeSampleParams a)) = (r1, s1, t1)"
    by (cases "acquire w (SampleOnnxMNIST (initializeSampleParams a))") auto
  obtain r2 s2 t2 where I: "infer w s1 = (r2, s2, t2)"
    by (cases "infer w s1") auto
  have "x \<notin> set t2" using infer_no_config [of x w s1] assms(2) by (auto simp: I)
  moreover have "x \<noteq> ReportTestStart" "x \<noteq> ReportPass" "x \<noteq> ReportFail"
    using assms(2) by auto
  ultimately show ?thesis
    by (simp add: main_run [OF assms(1) A I] A split: outcome.split bool.split)
qed

lemma loadV3_no_dla:
  "EnableDLA core \<notin> set (snd (snd (loadV3 w s)))"
  "SetDLACore core \<notin> set (snd (snd (loadV3 w s)))"
  by (simp_all add: loadV3_def run_simps Let_def split: option.split)

lemma loadV3_opens:
  "OpenEngineFile (loadEngine (mParams s)) \<in> set (snd (snd (loadV3 w s)))"
  by (simp add: loadV3_def run_simps Let_def split: option.split)

lemma build_config_events:
  assumes "createInferBuilder w" "createNetworkV2 w" "createBuilderConfig w" "createParser w"
    and "parseFromFile w (onnx_path w (mParams s)) = Some net"
  shows "EnableDLA core \<in> set (snd (snd (build w s))) \<longleftrightarrow> core = dlaCore (mParams s)"
    and "SetFlag kFP16 \<in> set (snd (snd (build w s))) \<longleftrightarrow> fp16 (mParams s)"
    and "SetFlag kBF16 \<in> set (snd (snd (build w s))) \<longleftrightarrow> bf16 (mParams s)"
    and "SetFlag kINT8 \<in> set (snd (snd (build w s))) \<longleftrightarrow> int8 (mParams s)"
    and "BuildTimingCacheFromFile f \<in> set (snd (snd (build w s)))
           \<longleftrightarrow> f = timingCacheFile (mParams s) \<and> f \<noteq> []"
    and "SaveEngine f \<in> set (snd (snd (build w s))) \<longrightarrow> f = saveEngine (mParams s)"
  using assms
  by (auto simp add: build_eq build_trace_def flag_events_def butlast_append Let_def
      split: option.splits if_splits)

text \<open>
  C6, as amended. \<^verbatim>\<open>initializeSampleParams\<close> copies each flag into its field unchanged, and
  \<open>dataDirs\<close> defaults to the two MNIST directories. On the build path, once the parser has
  read the model, the DLA core, the three precision flags and the timing cache file reach
  the builder configuration, and an engine is saved under the \<^verbatim>\<open>saveEngine\<close> name only. On the
  load path no DLA core is ever passed to the vendor runtime.
\<close>

theorem params_reach_vendor:
  assumes nohelp: "\<not> arg_help a"
  shows "dlaCore (initializeSampleParams a) = useDLACore a
       \<and> int8 (initializeSampleParams a) = runInInt8 a
       \<and> fp16 (initializeSampleParams a) = runInFp16 a
       \<and> bf16 (initializeSampleParams a) = runInBf16 a
       \<and> timingCacheFile (initializeSampleParams a) = arg_timingCacheFile a
       \<and> saveEngine (initializeSampleParams a) = arg_saveEngine a
       \<and> loadEngine (initializeSampleParams a) = arg_loadEngine a
       \<and> dataDirs (initializeSampleParams a) =
           (if arg_dataDirs a = [] then [''data/mnist/'', ''data/samples/mnist/''] else arg_dataDirs a)
       \<and> (arg_loadEngine a = [] \<and> createInferBuilder w \<and> createNetworkV2 w
            \<and> createBuilderConfig w \<and> createParser w
            \<and> parseFromFile w (onnx_path w (initializeSampleParams a)) \<noteq> None \<longrightarrow>
           (\<forall>core. EnableDLA core \<in> set (snd (main w True a)) \<longleftrightarrow> core = useDLACore a)
           \<and> (SetFlag kFP16 \<in> set (snd (main w True a)) \<longleftrightarrow> runInFp16 a)
           \<and> (SetFlag kBF16 \<in> set (snd (main w True a)) \<longleftrightarrow> runInBf16 a)
           \<and> (SetFlag kINT8 \<in> set (snd (main w True a)) \<longleftrightarrow> runInInt8 a)
           \<and> (\<forall>f. BuildTimingCacheFromFile f \<in> set (snd (main w True a))
                  \<longleftrightarrow> f = arg_timingCacheFile a \<and> f \<noteq> [])
           \<and> (\<forall>f. SaveEngine f \<in> set (snd (main w True a)) \<longrightarrow> f = arg_saveEngine a))
       \<and> (arg_loadEngine a \<noteq> [] \<longrightarrow>
           OpenEngineFile (arg_loadEngine a) \<in> set (snd (snd (loadV3 w (SampleOnnxMNIST (initializeSampleParams a)))))
           \<and> (\<forall>core. EnableDLA core \<notin> set (snd (main w True a))
                   \<and> SetDLACore core \<notin> set (snd (main w True a))))"
proof -
  let ?s = "SampleOnnxMNIST (initializeSampleParams a)"
  note M = main_config_events [OF nohelp, of _ w]
  have build_part:
    "(\<forall>core. EnableDLA core \<in> set (snd (main w True a)) \<longleftrightarrow> core = useDLACore a)
       \<and> (SetFlag kFP16 \<in> set (snd (main w True a)) \<longleftrightarrow> runInFp16 a)
       \<and> (SetFlag kBF16 \<in> set (snd (main w True a)) \<longleftrightarrow> runInBf16 a)
       \<and> (SetFlag kINT8 \<in> set (snd (main w True a)) \<longleftrightarrow> runInInt8 a)
       \<and> (\<forall>f. BuildTimingCacheFromFile f \<in> set (snd (main w True a))
              \<longleftrightarrow> f = arg_timingCacheFile a \<and> f \<noteq> [])
       \<and> (\<forall>f. SaveEngine f \<in> set (snd (main w True a)) \<longrightarrow> f = arg_saveEngine a)"
    if path: "arg_loadEngine a = []"
      and c: "createInferBuilder w" "createNetworkV2 w" "createBuilderConfig w" "createParser w"
      and p: "parseFromFile w (onnx_path w (initializeSampleParams a)) \<noteq> None"
  proof -
    from p obtain net where "parseFromFile w (onnx_path w (mParams ?s)) = Some net"
      by (auto simp: load_sample)
    note B = build_config_events [OF c this, unfolded load_sample]
    show ?thesis
      using B by (simp add: M acquire_build [OF path])
  qed
  have load_part:
    "OpenEngineFile (arg_loadEngine a) \<in> set (snd (snd (loadV3 w ?s)))
      \<and> (\<forall>core. EnableDLA core \<notin> set (snd (main w True a))
              \<and> SetDLACore core \<notin> set (snd (main w True a)))"
    if path: "arg_loadEngine a \<noteq> []"
    using loadV3_opens [of ?s w]
    by (simp add: M acquire_load [OF path] loadV3_no_dla load_sample)
  from build_part load_part show ?thesis
    by (simp add: load_sample)
qed

lemma demo_load_run:
  "main demo_world True load_args =
     (Pass_Report,
      [ReportTestStart, Enter ''loadV3'', OpenEngineFile ''mnist.engine'', ReadEngineFile 3,
       CreateInferRuntime, DeserializeCudaEngine [1, 2, 3] 3] @ demo_infer_trace @ [ReportPass])"
proof -
  let ?s = "SampleOnnxMNIST (initializeSampleParams load_args)"
  have f: "files demo_world (loadEngine (mParams ?s)) = Some \<lparr>content = [1, 2, 3], read_error = False\<rparr>"
    by (simp add: load_sample load_args_def demo_world_def)
  have r: "createInferRuntime demo_world" by (simp add: demo_world_def)
  have d: "deserializeCudaEngine demo_world [1, 2, 3] (Suc (Suc (Suc 0))) = Some mnist_engine"
    by (simp add: demo_world_def)
  have l: "arg_loadEngine load_args \<noteq> []" by (simp add: load_args_def)
  have A: "acquire demo_world ?s =
       (Returned True, ?s\<lparr>mRuntime := Some (), mEngine := Some mnist_engine\<rparr>,
        [Enter ''loadV3'', OpenEngineFile ''mnist.engine'', ReadEngineFile 3,
         CreateInferRuntime, DeserializeCudaEngine [1, 2, 3] 3])"
    using loadV3_ok [OF f _ r] d 
    by (simp add: acquire_load [OF l]) (simp add: load_sample load_args_def)
  have I: "infer demo_world (?s\<lparr>mRuntime := Some (), mEngine := Some mnist_engine\<rparr>) =
      (Returned True, ?s\<lparr>mRuntime := Some (), mEngine := Some mnist_engine, mNumber := 3\<rparr>,
       demo_infer_trace)"
    using infer_demo [of "?s\<lparr>mRuntime := Some (), mEngine := Some mnist_engine\<rparr>"]
    by (simp add: load_sample load_args_def demo_args_def)
  have h: "\<not> arg_help load_args" by (simp add: load_args_def demo_args_def)
  show ?thesis using main_run [OF h A I] by simp
qed

theorem params_reach_vendor_witness:
  "\<not> arg_help demo_args \<and> arg_loadEngine demo_args = []
   \<and> parseFromFile demo_world (onnx_path demo_world (initializeSampleParams demo_args)) \<noteq> None
   \<and> dlaCore (initializeSampleParams demo_args) = 1
   \<and> EnableDLA 1 \<in> set (snd (main demo_world True demo_args))
   \<and> SetFlag kFP16 \<in> set (snd (main demo_world True demo_args))
   \<and> SetFlag kINT8 \<notin> set (snd (main demo_world True demo_args))"
proof -
  have h: "\<not> arg_help demo_args" by (simp add: demo_args_def)
  have w: "arg_loadEngine demo_args = []" "createInferBuilder demo_world" "createNetworkV2 demo_world"
    "createBuilderConfig demo_world" "createParser demo_world"
    "parseFromFile demo_world (onnx_path demo_world (initializeSampleParams demo_args)) \<noteq> None"
    by (simp_all add: demo_args_def demo_world_def)
  have v: "useDLACore demo_args = 1" "runInFp16 demo_args" "\<not> runInInt8 demo_args"
    by (simp_all add: demo_args_def)
  from params_reach_vendor [OF h, of demo_world] h w v show ?thesis by simp
qed

text \<open>
  C6 as stated fails on the load path: the run with \<open>--useDLACore=1\<close> that loads
  \<open>mnist.engine\<close> passes, and no call of its trace carries the DLA core.
\<close>

theorem load_run_drops_dla_core:
  "useDLACore load_args = 1 \<and> arg_loadEngine load_args = ''mnist.engine''
   \<and> fst (main demo_world True load_args) = Pass_Report
   \<and> EnableDLA 1 \<notin> set (snd (main demo_world True load_args))
   \<and> SetDLACore 1 \<notin> set (snd (main demo_world True load_args))"
  by (simp add: demo_load_run demo_infer_trace_def) (simp add: load_args_def demo_args_def)

lemma smod_10_nonneg: "0 \<le> r \<Longrightarrow> r smod 10 = r mod (10::int)"
  by (cases "r = 0") (simp_all add: signed_modulo_int_def)

lemma pgm_name_digit: "0 \<le> k \<Longrightarrow> k \<le> 9 \<Longrightarrow> pgm_name k = digit_char (nat k) # ''.pgm''"
  by (simp add: pgm_name_def to_string_def)

lemma infer_reaches_verifyOutput:
  assumes "infer w s = (r, s', tr)" "Enter ''verifyOutput'' \<in> set tr"
  shows "s' = s\<lparr>mNumber := rand w smod 10\<rparr>
       \<and> ReadPGMFile (locateFile w (pgm_name (rand w smod 10)) (dataDirs (mParams s))) inputH inputW
           \<in> set tr
       \<and> (\<exists>bufs2. verifyOutput w bufs2 (s\<lparr>mNumber := rand w smod 10\<rparr>)
             = (r, s', [Enter ''verifyOutput'']))"
  using assms
  by (auto simp add: infer_eq verifyOutput_eq Let_def
      split: option.splits outcome.splits prod.splits if_splits)

text \<open>
  C5. \<^verbatim>\<open>processInput\<close> draws the digit \<open>d = rand() % 10\<close>, which lies between 0 and 9, stores
  it in \<open>mNumber\<close> and reads the file \<open><d>.pgm\<close> as an image of 28 by 28 bytes. Whenever
  \<^verbatim>\<open>infer\<close> reaches \<^verbatim>\<open>verifyOutput\<close>, the expected digit of the verification is this \<open>d\<close>.
\<close>

theorem processInput_label_names_file:
  assumes "0 \<le> rand w"
  shows "0 \<le> rand w mod 10 \<and> rand w mod 10 \<le> 9
       \<and> processInput w bufs s =
           (processed w bufs s, s\<lparr>mNumber := rand w mod 10\<rparr>,
            [Enter ''processInput'',
             ReadPGMFile (locateFile w (digit_char (nat (rand w mod 10)) # ''.pgm'') (dataDirs (mParams s)))
               28 28])
       \<and> (\<forall>r s' tr. infer w s = (r, s', tr) \<and> Enter ''verifyOutput'' \<in> set tr \<longrightarrow>
             mNumber s' = rand w mod 10
             \<and> ReadPGMFile (locateFile w (digit_char (nat (rand w mod 10)) # ''.pgm'')
                   (dataDirs (mParams s))) 28 28 \<in> set tr
             \<and> (\<exists>bufs2. verifyOutput w bufs2 (s\<lparr>mNumber := rand w mod 10\<rparr>)
                   = (r, s', [Enter ''verifyOutput''])))"
proof -
  have d: "0 \<le> rand w mod 10" "rand w mod 10 \<le> 9" by simp_all
  have m: "rand w smod 10 = rand w mod 10" using assms by (rule smod_10_nonneg)
  have n: "pgm_name (rand w mod 10) = digit_char (nat (rand w mod 10)) # ''.pgm''"
    using d by (rule pgm_name_digit)
  have hw: "inputH = 28" "inputW = 28" by (simp_all add: inputH_def inputW_def)
  have p: "processInput w bufs s =
           (processed w bufs s, s\<lparr>mNumber := rand w mod 10\<rparr>,
            [Enter ''processInput'',
             ReadPGMFile (locateFile w (digit_char (nat (rand w mod 10)) # ''.pgm'') (dataDirs (mParams s)))
               28 28])"
    using processInput_eq [of w bufs s] by (simp add: m n hw)
  have i: "mNumber s' = rand w mod 10
             \<and> ReadPGMFile (locateFile w (digit_char (nat (rand w mod 10)) # ''.pgm'')
                   (dataDirs (mParams s))) 28 28 \<in> set tr
             \<and> (\<exists>bufs2. verifyOutput w bufs2 (s\<lparr>mNumber := rand w mod 10\<rparr>)
                   = (r, s', [Enter ''verifyOutput'']))"
    if "infer w s = (r, s', tr)" "Enter ''verifyOutput'' \<in> set tr" for r s' tr
    using infer_reaches_verifyOutput [OF that] by (auto simp add: m n hw)
  from d p i show ?thesis by blast
qed

theorem processInput_label_names_file_witness:
  "0 \<le> rand demo_world \<and> rand demo_world mod 10 = 3
   \<and> digit_char (nat 3) # ''.pgm'' = ''3.pgm''
   \<and> snd (processInput demo_world demo_buffers (SampleOnnxMNIST (initializeSampleParams demo_args))) =
       ((SampleOnnxMNIST (initializeSampleParams demo_args))\<lparr>mNumber := 3\<rparr>,
        [Enter ''processInput'', ReadPGMFile ''data/mnist/3.pgm'' 28 28])"
proof -
  have r: "0 \<le> rand demo_world" by (simp add: demo_world_def)
  have m: "rand demo_world mod 10 = 3" by (simp add: demo_world_def)
  have c: "digit_char (nat 3) # ''.pgm'' = ''3.pgm''" by (simp add: digit_char_def)
  have l: "locateFile demo_world ''3.pgm''
      (dataDirs (mParams (SampleOnnxMNIST (initializeSampleParams demo_args)))) = ''data/mnist/3.pgm''"
    by (simp add: load_sample demo_args_def demo_world_def)
  from processInput_label_names_file [OF r, of demo_buffers "SampleOnnxMNIST (initializeSampleParams demo_args)"]
    r m c l
  show ?thesis by simp
qed













end
